theory Spec2Isabelle
  imports Main
begin

section \<open>EmailService: bounce suppression, eligibility verdicts and guarded sending\<close>

text \<open>
  A shallow embedding of \<^verbatim>\<open>packages/backend/src/core/EmailService.ts\<close>. The class
  has three methods: \<^verbatim>\<open>checkEmailBounce\<close> (the bounce registry's check-and-refresh),
  \<^verbatim>\<open>validateEmailForAccount\<close> (the eligibility verdict) and \<^verbatim>\<open>sendEmail\<close> (the
  guarded send). Each \<^verbatim>\<open>async\<close> method becomes a function from the state of the
  service and its surroundings to an outcome and the state afterwards; a rejected
  \<^verbatim>\<open>await\<close> or a \<^verbatim>\<open>throw\<close> is the \<open>Inl\<close> outcome. The state is returned on both
  outcomes, so what happened before a failure stays visible.
\<close>

subsection \<open>Thrown values and the logger\<close>

text \<open>
  \<open>Error m\<close> is \<^verbatim>\<open>new Error(m)\<close>; \<open>ServiceException n\<close> is whatever a collaborator
  (an AWS SDK client, the repository, the validator) rejects with, by name.
\<close>

datatype exn = Error string | ServiceException string

datatype log_entry = LogError string | LogErrorExn exn | LogInfo string

subsection \<open>The DynamoDB client\<close>

text \<open>
  An attribute value is \<^verbatim>\<open>{"S": ...}\<close> or \<^verbatim>\<open>{"N": ...}\<close>; a key and the
  expression attribute tables are object literals, kept as association lists in the
  order the source writes them. The arguments of \<open>GetItemCommand\<close> are \<^verbatim>\<open>TableName\<close>
  and \<^verbatim>\<open>Key\<close>; those of \<open>UpdateItemCommand\<close> are \<^verbatim>\<open>TableName\<close>, \<^verbatim>\<open>Key\<close>,
  \<^verbatim>\<open>UpdateExpression\<close>, \<^verbatim>\<open>ExpressionAttributeNames\<close> and
  \<^verbatim>\<open>ExpressionAttributeValues\<close>.
\<close>

datatype AttributeValue = S string | N string

type_synonym Key = "(string \<times> AttributeValue) list"

type_synonym Item = "string \<rightharpoonup> AttributeValue"

datatype command =
    GetItemCommand string Key
  | UpdateItemCommand string Key string "(string \<times> string) list" "(string \<times> AttributeValue) list"

datatype command_output = GetItemCommandOutput "Item option" | UpdateItemCommandOutput

fun Item :: "command_output \<Rightarrow> Item option" where
  "Item (GetItemCommandOutput i) = i"
| "Item UpdateItemCommandOutput = None"

text \<open>
  The store itself is a collaborator outside the repository (the key-value store of the
  external interfaces: a lookup that yields a record or nothing, and an update with
  create-if-absent semantics driven by an update expression). Its state is the items of
  every table, the commands sent to it so far, and \<open>fault\<close>: whether the store rejects
  a command, given the commands sent before it (an outage, throttling, a missing table).
\<close>

record DynamoDBClient =
  items :: "string \<Rightarrow> Key \<rightharpoonup> Item"
  fault :: "command list \<Rightarrow> command \<Rightarrow> exn option"
  sent :: "command list"

text \<open>
  The one update expression the service writes, \<^verbatim>\<open>SET #TL = :tl\<close>: the attribute named
  by \<^verbatim>\<open>#TL\<close> takes the value bound to \<^verbatim>\<open>:tl\<close>. Anything else is refused.
\<close>

definition apply_update ::
  "string \<Rightarrow> (string \<times> string) list \<Rightarrow> (string \<times> AttributeValue) list \<Rightarrow> Item \<Rightarrow> Item option" where
  "apply_update expr names vals it =
     (if expr = ''SET #TL = :tl'' then
        (case map_of names ''#TL'' of
           None \<Rightarrow> None
         | Some a \<Rightarrow>
            (case map_of vals '':tl'' of
               None \<Rightarrow> None
             | Some v \<Rightarrow> Some (it(a \<mapsto> v))))
      else None)"

text \<open>
  \<^verbatim>\<open>this.dynamoDb.send(cmd)\<close>. Every command sent is recorded, also one the store
  rejects. A lookup changes no item. An update of an absent key creates the item from
  the key's attributes.
\<close>

definition dynamo_send :: "DynamoDBClient \<Rightarrow> command \<Rightarrow> (exn + command_output) \<times> DynamoDBClient" where
  "dynamo_send d c =
     (let d' = d\<lparr>sent := sent d @ [c]\<rparr> in
      case fault d (sent d) c of
        Some e \<Rightarrow> (Inl e, d')
      | None \<Rightarrow>
         (case c of
            GetItemCommand t k \<Rightarrow> (Inr (GetItemCommandOutput (items d t k)), d')
          | UpdateItemCommand t k expr names vals \<Rightarrow>
             (case apply_update expr names vals (case items d t k of None \<Rightarrow> map_of k | Some it \<Rightarrow> it) of
                None \<Rightarrow> (Inl (ServiceException ''ValidationException''), d')
              | Some it' \<Rightarrow>
                 (Inr UpdateItemCommandOutput, d'\<lparr>items := (items d)(t := (items d t)(k \<mapsto> it'))\<rparr>))))"

subsection \<open>The SES client\<close>

text \<open>
  The input of \<^verbatim>\<open>SendEmailCommand\<close>, its nested object flattened. \<open>Source\<close> is
  \<^verbatim>\<open>meta.email!\<close>: the assertion does nothing at run time, so it may be null.
\<close>

record SendEmailCommandInput =
  Source :: "string option"
  ToAddresses :: "string list"
  Subject_Data :: string
  Subject_Charset :: string
  Text_Data :: string
  Text_Charset :: string
  Html_Data :: string
  Html_Charset :: string

text \<open>
  The transport collaborator: \<open>respond\<close> is what it answers to a message (a rejection, or
  a response whose \<^verbatim>\<open>MessageId\<close> may be undefined), \<open>delivered\<close> the messages handed to it.
\<close>

record SESClient =
  respond :: "SendEmailCommandInput \<Rightarrow> exn + string option"
  delivered :: "SendEmailCommandInput list"

definition ses_send :: "SESClient \<Rightarrow> SendEmailCommandInput \<Rightarrow> (exn + string option) \<times> SESClient" where
  "ses_send c m = (respond c m, c\<lparr>delivered := delivered c @ [m]\<rparr>)"

subsection \<open>The other collaborators and the state of the service\<close>

record Meta =
  email :: "string option"
  logoImageUrl :: "string option"
  iconUrl :: "string option"
  enableActiveEmailValidation :: bool

record Config =
  url :: string
  host :: string

text \<open>The options and the answer of \<^verbatim>\<open>validate\<close> of deep-email-validator.\<close>

record ValidatorOptions =
  validate_email :: string
  validateRegex :: bool
  validateMx :: bool
  validateTypo :: bool
  validateDisposable :: bool
  validateSMTP :: bool

record OutputFormat =
  valid :: bool
  reason :: "string option"

text \<open>
  The fields of the class (\<open>config\<close>, \<open>logger\<close>, \<open>client\<close>, \<open>dynamoDb\<close>), the calls it
  makes on injected services (\<open>metaService_fetch\<close> with its \<^verbatim>\<open>noCache\<close> argument,
  \<open>userProfilesRepository_countBy\<close> with \<^verbatim>\<open>emailVerified\<close> and \<^verbatim>\<open>email\<close>,
  \<open>validateEmail\<close>), and what it reads from the process: \<^verbatim>\<open>process.env.BOUNCE_TABLE_NAME\<close>
  (\<open>None\<close> when unset) and \<^verbatim>\<open>Date.now()\<close> in milliseconds.
\<close>

record world =
  config :: Config
  metaService_fetch :: "bool \<Rightarrow> exn + Meta"
  userProfilesRepository_countBy :: "bool \<Rightarrow> string \<Rightarrow> exn + nat"
  validateEmail :: "ValidatorOptions \<Rightarrow> exn + OutputFormat"
  logger :: "log_entry list"
  client :: SESClient
  dynamoDb :: DynamoDBClient
  env_BOUNCE_TABLE_NAME :: "string option"
  Date_now :: nat

subsection \<open>checkEmailBounce\<close>

text \<open>\<^verbatim>\<open>Number.prototype.toString\<close> on a non-negative integer: its decimal digits.\<close>

fun toString :: "nat \<Rightarrow> string" where
  "toString n =
     (if n < 10 then [''0123456789'' ! n]
      else toString (n div 10) @ [''0123456789'' ! (n mod 10)])"

declare toString.simps [simp del]

definition bounce_key :: "string \<Rightarrow> Key" where
  "bounce_key emailAddress = [(''email'', S emailAddress), (''category'', S ''Bounce_Info'')]"

definition endTime :: "world \<Rightarrow> nat" where
  "endTime w = Date_now w div 1000 + 86400 * 7"

definition updateItemCmd :: "string \<Rightarrow> string \<Rightarrow> nat \<Rightarrow> command" where
  "updateItemCmd tableName emailAddress t =
     UpdateItemCommand tableName (bounce_key emailAddress)
       ''SET #TL = :tl'' [(''#TL'', ''ttl'')] [('':tl'', N (toString t))]"

text \<open>
  \<^verbatim>\<open>!tableName\<close> holds for an unset variable and for the empty string. A rejected
  \<^verbatim>\<open>send\<close> leaves the method at once, with the store as the call left it.
\<close>

definition checkEmailBounce :: "world \<Rightarrow> string \<Rightarrow> (exn + bool) \<times> world" where
  "checkEmailBounce w emailAddress =
     (case env_BOUNCE_TABLE_NAME w of
        None \<Rightarrow> (Inr False, w)
      | Some tableName \<Rightarrow>
         if tableName = [] then (Inr False, w)
         else
           (case dynamo_send (dynamoDb w) (GetItemCommand tableName (bounce_key emailAddress)) of
              (Inl e, d1) \<Rightarrow> (Inl e, w\<lparr>dynamoDb := d1\<rparr>)
            | (Inr getItemRes, d1) \<Rightarrow>
               (case Item getItemRes of
                  None \<Rightarrow> (Inr False, w\<lparr>dynamoDb := d1\<rparr>)
                | Some _ \<Rightarrow>
                   (case dynamo_send d1 (updateItemCmd tableName emailAddress (endTime w)) of
                      (Inl e, d2) \<Rightarrow> (Inl e, w\<lparr>dynamoDb := d2\<rparr>)
                    | (Inr _, d2) \<Rightarrow> (Inr True, w\<lparr>dynamoDb := d2\<rparr>)))))"

subsection \<open>sendEmail\<close>

definition tab :: "nat \<Rightarrow> string \<Rightarrow> string" where
  "tab n s = replicate n (CHR 0x09) @ s"

fun join_lines :: "string list \<Rightarrow> string" where
  "join_lines [] = []"
| "join_lines [l] = l"
| "join_lines (l # ls) = l @ [CHR 0x0A] @ join_lines ls"

text \<open>The template literal \<^verbatim>\<open>htmlData\<close>, line by line, each with its leading tabs.\<close>

definition htmlData :: "Config \<Rightarrow> Meta \<Rightarrow> string \<Rightarrow> string \<Rightarrow> string \<Rightarrow> string \<Rightarrow> string" where
  \<open>htmlData cfg meta iconUrl' emailSettingUrl subject html = join_lines [
    tab 0 (''<!doctype html>''),
    tab 0 (''<html>''),
    tab 1 (''<head>''),
    tab 2 (''<meta charset="utf-8">''),
    tab 2 (''<title>'' @ subject @ ''</title>''),
    tab 2 (''<style>''),
    tab 3 (''html {''),
    tab 4 (''background: #eee;''),
    tab 3 (''}''),
    tab 0 (''''),
    tab 3 (''body {''),
    tab 4 (''padding: 16px;''),
    tab 4 (''margin: 0;''),
    tab 4 (''font-family: sans-serif;''),
    tab 4 (''font-size: 14px;''),
    tab 3 (''}''),
    tab 0 (''''),
    tab 3 (''a {''),
    tab 4 (''text-decoration: none;''),
    tab 4 (''color: #86b300;''),
    tab 3 (''}''),
    tab 3 (''a:hover {''),
    tab 4 (''text-decoration: underline;''),
    tab 3 (''}''),
    tab 0 (''''),
    tab 3 (''main {''),
    tab 4 (''max-width: 500px;''),
    tab 4 (''margin: 0 auto;''),
    tab 4 (''background: #fff;''),
    tab 4 (''color: #555;''),
    tab 3 (''}''),
    tab 4 (''main > header {''),
    tab 5 (''padding: 32px;''),
    tab 5 (''background: #86b300;''),
    tab 4 (''}''),
    tab 5 (''main > header > img {''),
    tab 6 (''max-width: 128px;''),
    tab 6 (''max-height: 28px;''),
    tab 6 (''vertical-align: bottom;''),
    tab 5 (''}''),
    tab 4 (''main > article {''),
    tab 5 (''padding: 32px;''),
    tab 4 (''}''),
    tab 5 (''main > article > h1 {''),
    tab 6 (''margin: 0 0 1em 0;''),
    tab 5 (''}''),
    tab 4 (''main > footer {''),
    tab 5 (''padding: 32px;''),
    tab 5 (''border-top: solid 1px #eee;''),
    tab 4 (''}''),
    tab 0 (''''),
    tab 3 (''nav {''),
    tab 4 (''box-sizing: border-box;''),
    tab 4 (''max-width: 500px;''),
    tab 4 (''margin: 16px auto 0 auto;''),
    tab 4 (''padding: 0 32px;''),
    tab 3 (''}''),
    tab 4 (''nav > a {''),
    tab 5 (''color: #888;''),
    tab 4 (''}''),
    tab 2 (''</style>''),
    tab 1 (''</head>''),
    tab 1 (''<body>''),
    tab 2 (''<main>''),
    tab 3 (''<header>''),
    tab 4 (''<img src="'' @
      (case logoImageUrl meta of
         Some u \<Rightarrow> u
       | None \<Rightarrow> (case iconUrl meta of Some u \<Rightarrow> u | None \<Rightarrow> iconUrl')) @ ''"/>''),
    tab 3 (''</header>''),
    tab 3 (''<article>''),
    tab 4 (''<h1>'' @ subject @ ''</h1>''),
    tab 4 (''<div>'' @ html @ ''</div>''),
    tab 3 (''</article>''),
    tab 3 (''<footer>''),
    tab 4 (''<a href="'' @ emailSettingUrl @ ''">'' @ ''Email setting'' @ ''</a>''),
    tab 3 (''</footer>''),
    tab 2 (''</main>''),
    tab 2 (''<nav>''),
    tab 3 (''<a href="'' @ url cfg @ ''">'' @ host cfg @ ''</a>''),
    tab 2 (''</nav>''),
    tab 1 (''</body>''),
    tab 0 (''</html>'')]\<close>

definition sendEmailCommand :: "world \<Rightarrow> Meta \<Rightarrow> string \<Rightarrow> string \<Rightarrow> string \<Rightarrow> string \<Rightarrow> SendEmailCommandInput" where
  "sendEmailCommand w meta to subject html text' =
     (let iconUrl' = url (config w) @ ''/static-assets/mi-white.png'';
          emailSettingUrl = url (config w) @ ''/settings/email''
      in \<lparr>Source = email meta,
          ToAddresses = [to],
          Subject_Data = subject,
          Subject_Charset = ''UTF-8'',
          Text_Data = text',
          Text_Charset = ''UTF-8'',
          Html_Data = htmlData (config w) meta iconUrl' emailSettingUrl subject html,
          Html_Charset = ''UTF-8''\<rparr>)"

text \<open>
  What the promise of \<^verbatim>\<open>sendEmail\<close> resolves to. The method has no \<^verbatim>\<open>return\<close>
  statement, so that is \<^verbatim>\<open>undefined\<close>.
\<close>

datatype js_value = Undefined | Str string

definition bounce_message :: "string \<Rightarrow> string" where
  "bounce_message to = ''Email address '' @ to @ '' is registered on bounce table.''"

definition sendEmail :: "world \<Rightarrow> string \<Rightarrow> string \<Rightarrow> string \<Rightarrow> string \<Rightarrow> (exn + js_value) \<times> world" where
  "sendEmail w to subject html text' =
     (case metaService_fetch w True of
        Inl e \<Rightarrow> (Inl e, w)
      | Inr meta \<Rightarrow>
         (case checkEmailBounce w to of
            (Inl e, w1) \<Rightarrow> (Inl e, w1)
          | (Inr checkRes, w1) \<Rightarrow>
             if checkRes then
               (Inl (Error (bounce_message to)),
                w1\<lparr>logger := logger w1 @ [LogError (bounce_message to)]\<rparr>)
             else
               (case ses_send (client w1) (sendEmailCommand w1 meta to subject html text') of
                  (Inl err, c1) \<Rightarrow>
                    (Inl err, w1\<lparr>client := c1, logger := logger w1 @ [LogErrorExn err]\<rparr>)
                | (Inr MessageId, c1) \<Rightarrow>
                    (Inr Undefined,
                     w1\<lparr>client := c1,
                        logger := logger w1 @
                          [LogInfo (''Message sent: '' @
                             (case MessageId of None \<Rightarrow> ''undefined'' | Some m \<Rightarrow> m))]\<rparr>))))"

subsection \<open>validateEmailForAccount\<close>

datatype reason_code = used | format | disposable | mx | smtp

record verdict =
  available :: bool
  verdict_reason :: "reason_code option"

definition validator_options :: "string \<Rightarrow> ValidatorOptions" where
  "validator_options emailAddress =
     \<lparr>validate_email = emailAddress,
      validateRegex = True,
      validateMx = True,
      validateTypo = False,
      validateDisposable = True,
      validateSMTP = False\<rparr>"

text \<open>
  The verdict computed from the three gathered values: the nested conditional of the
  \<^verbatim>\<open>return\<close> statement, in its order.
\<close>

definition decide :: "nat \<Rightarrow> bool \<Rightarrow> OutputFormat \<Rightarrow> verdict" where
  "decide exist checkBounce validated =
     (let available = (exist = 0 \<and> valid validated \<and> \<not> checkBounce) in
      \<lparr>available = available,
       verdict_reason =
         (if available then None
          else if exist \<noteq> 0 then Some used
          else if checkBounce then Some smtp
          else if reason validated = Some ''regex'' then Some format
          else if reason validated = Some ''disposable'' then Some disposable
          else if reason validated = Some ''mx'' then Some mx
          else if reason validated = Some ''smtp'' then Some smtp
          else None)\<rparr>)"

definition validated_of :: "world \<Rightarrow> Meta \<Rightarrow> string \<Rightarrow> exn + OutputFormat" where
  "validated_of w meta emailAddress =
     (if enableActiveEmailValidation meta then validateEmail w (validator_options emailAddress)
      else Inr \<lparr>valid = True, reason = None\<rparr>)"

definition validateEmailForAccount :: "world \<Rightarrow> string \<Rightarrow> (exn + verdict) \<times> world" where
  "validateEmailForAccount w emailAddress =
     (case metaService_fetch w False of
        Inl e \<Rightarrow> (Inl e, w)
      | Inr meta \<Rightarrow>
         (case userProfilesRepository_countBy w True emailAddress of
            Inl e \<Rightarrow> (Inl e, w)
          | Inr exist \<Rightarrow>
             (case checkEmailBounce w emailAddress of
                (Inl e, w1) \<Rightarrow> (Inl e, w1)
              | (Inr checkBounce, w1) \<Rightarrow>
                 (case validated_of w1 meta emailAddress of
                    Inl e \<Rightarrow> (Inl e, w1)
                  | Inr validated \<Rightarrow> (Inr (decide exist checkBounce validated), w1)))))"

subsection \<open>The eligibility rule as the specification words it\<close>

text \<open>
  The format collaborator's answer as the specification names it, the decision rule
  \<open>available = (alreadyVerifiedCount == 0) AND formatResult == valid AND NOT isSuppressed\<close>
  and the numbered precedence list of reasons. \<open>formatResult_of\<close> reads an answer of
  the validator as one of the five results; an invalid answer with any other reason
  (or none) is none of them.
\<close>

datatype formatResult = fr_valid | invalid_format | fr_disposable | invalid_mx | invalid_smtp

definition spec_available :: "nat \<Rightarrow> bool \<Rightarrow> formatResult \<Rightarrow> bool" where
  "spec_available alreadyVerifiedCount isSuppressed fr =
     (alreadyVerifiedCount = 0 \<and> fr = fr_valid \<and> \<not> isSuppressed)"

definition spec_reason :: "nat \<Rightarrow> bool \<Rightarrow> formatResult \<Rightarrow> reason_code option" where
  "spec_reason alreadyVerifiedCount isSuppressed fr =
     (if spec_available alreadyVerifiedCount isSuppressed fr then None
      else if alreadyVerifiedCount \<noteq> 0 then Some used
      else if isSuppressed then Some smtp
      else if fr = invalid_format then Some format
      else if fr = fr_disposable then Some disposable
      else if fr = invalid_mx then Some mx
      else if fr = invalid_smtp then Some smtp
      else None)"

definition formatResult_of :: "OutputFormat \<Rightarrow> formatResult option" where
  "formatResult_of validated =
     (if valid validated then Some fr_valid
      else if reason validated = Some ''regex'' then Some invalid_format
      else if reason validated = Some ''disposable'' then Some fr_disposable
      else if reason validated = Some ''mx'' then Some invalid_mx
      else if reason validated = Some ''smtp'' then Some invalid_smtp
      else None)"

subsection \<open>A concrete service\<close>

text \<open>
  A site with the bounce table configured and two bounced addresses on record (one of
  them also verified on an account), used to run the methods on concrete inputs.
\<close>

definition bounced_item :: "string \<Rightarrow> Item" where
  "bounced_item a =
     [''email'' \<mapsto> S a, ''category'' \<mapsto> S ''Bounce_Info'', ''ttl'' \<mapsto> N ''1700000001'']"

definition d0 :: DynamoDBClient where
  "d0 = \<lparr>items = (\<lambda>t. if t = ''bounces''
                        then [bounce_key ''bounced@example.com'' \<mapsto> bounced_item ''bounced@example.com'',
                              bounce_key ''taken@example.com'' \<mapsto> bounced_item ''taken@example.com'']
                        else Map.empty),
          fault = (\<lambda>_ _. None),
          sent = []\<rparr>"

definition meta0 :: Meta where
  "meta0 = \<lparr>email = Some ''noreply@example.com'', logoImageUrl = None, iconUrl = None,
            enableActiveEmailValidation = True\<rparr>"

definition w0 :: world where
  "w0 = \<lparr>config = \<lparr>url = ''https://example.com'', host = ''example.com''\<rparr>,
          metaService_fetch = (\<lambda>_. Inr meta0),
          userProfilesRepository_countBy =
            (\<lambda>_ e. Inr (if e = ''taken@example.com'' then 1 else 0)),
          validateEmail =
            (\<lambda>opts. Inr (if validate_email opts = ''x@mailinator.com''
                          then \<lparr>valid = False, reason = Some ''disposable''\<rparr>
                          else \<lparr>valid = True, reason = None\<rparr>)),
          logger = [],
          client = \<lparr>respond = (\<lambda>_. Inr (Some ''0100018c-msg'')), delivered = []\<rparr>,
          dynamoDb = d0,
          env_BOUNCE_TABLE_NAME = Some ''bounces'',
          Date_now = 1700000000123\<rparr>"

text \<open>The same site with the table name unset, and with the store rejecting every call.\<close>

definition w_unset :: world where
  "w_unset = w0\<lparr>env_BOUNCE_TABLE_NAME := None\<rparr>"

definition w_outage :: world where
  "w_outage = w0\<lparr>dynamoDb := d0\<lparr>fault := (\<lambda>_ _. Some (ServiceException ''RequestLimitExceeded''))\<rparr>\<rparr>"

section \<open>Properties\<close>

subsection \<open>The store and the frame of the bounce check\<close>

lemma dynamo_send_get:
  "fault d (sent d) (GetItemCommand t k) = None \<Longrightarrow>
   dynamo_send d (GetItemCommand t k) =
     (Inr (GetItemCommandOutput (items d t k)), d\<lparr>sent := sent d @ [GetItemCommand t k]\<rparr>)"
  by (simp add: dynamo_send_def)

lemma dynamo_send_fault:
  "fault d (sent d) c = Some e \<Longrightarrow> dynamo_send d c = (Inl e, d\<lparr>sent := sent d @ [c]\<rparr>)"
  by (simp add: dynamo_send_def)

lemma dynamo_send_sent: "sent (snd (dynamo_send d c)) = sent d @ [c]"
  by (simp add: dynamo_send_def Let_def split: option.splits command.splits)

lemma dynamo_send_update:
  "fault d (sent d) (updateItemCmd t a n) = None \<Longrightarrow>
   dynamo_send d (updateItemCmd t a n) =
     (Inr UpdateItemCommandOutput,
      d\<lparr>sent := sent d @ [updateItemCmd t a n],
        items := (items d)(t := (items d t)(bounce_key a \<mapsto>
          (case items d t (bounce_key a) of None \<Rightarrow> map_of (bounce_key a) | Some it \<Rightarrow> it)
            (''ttl'' \<mapsto> N (toString n))))\<rparr>)"
  by (simp add: dynamo_send_def updateItemCmd_def apply_update_def)

lemma end_time: "endTime w = Date_now w div 1000 + 604800"
  by (simp add: endTime_def)

lemma checkEmailBounce_found:
  assumes "env_BOUNCE_TABLE_NAME w = Some t" and "t \<noteq> []"
    and "fault (dynamoDb w) (sent (dynamoDb w)) (GetItemCommand t (bounce_key a)) = None"
    and "items (dynamoDb w) t (bounce_key a) = Some it"
  shows "checkEmailBounce w a =
    (case dynamo_send ((dynamoDb w)\<lparr>sent := sent (dynamoDb w) @ [GetItemCommand t (bounce_key a)]\<rparr>)
            (updateItemCmd t a (endTime w)) of
       (Inl e, d2) \<Rightarrow> (Inl e, w\<lparr>dynamoDb := d2\<rparr>)
     | (Inr _, d2) \<Rightarrow> (Inr True, w\<lparr>dynamoDb := d2\<rparr>))"
  using assms by (simp add: checkEmailBounce_def dynamo_send_get)

lemma checkEmailBounce_absent:
  assumes "env_BOUNCE_TABLE_NAME w = Some t" and "t \<noteq> []"
    and "fault (dynamoDb w) (sent (dynamoDb w)) (GetItemCommand t (bounce_key a)) = None"
    and "items (dynamoDb w) t (bounce_key a) = None"
  shows "checkEmailBounce w a =
    (Inr False, w\<lparr>dynamoDb := (dynamoDb w)\<lparr>sent := sent (dynamoDb w) @ [GetItemCommand t (bounce_key a)]\<rparr>\<rparr>)"
  using assms by (simp add: checkEmailBounce_def dynamo_send_get)

lemma checkEmailBounce_lookup_fault:
  assumes "env_BOUNCE_TABLE_NAME w = Some t" and "t \<noteq> []"
    and "fault (dynamoDb w) (sent (dynamoDb w)) (GetItemCommand t (bounce_key a)) = Some e"
  shows "checkEmailBounce w a =
    (Inl e, w\<lparr>dynamoDb := (dynamoDb w)\<lparr>sent := sent (dynamoDb w) @ [GetItemCommand t (bounce_key a)]\<rparr>\<rparr>)"
  using assms by (simp add: checkEmailBounce_def dynamo_send_fault)

lemma checkEmailBounce_refresh:
  assumes "env_BOUNCE_TABLE_NAME w = Some t" and "t \<noteq> []"
    and "fault (dynamoDb w) (sent (dynamoDb w)) (GetItemCommand t (bounce_key a)) = None"
    and "items (dynamoDb w) t (bounce_key a) = Some it"
    and "fault (dynamoDb w) (sent (dynamoDb w) @ [GetItemCommand t (bounce_key a)])
           (updateItemCmd t a (endTime w)) = None"
  shows "checkEmailBounce w a =
    (Inr True,
     w\<lparr>dynamoDb := (dynamoDb w)
        \<lparr>sent := sent (dynamoDb w) @ [GetItemCommand t (bounce_key a), updateItemCmd t a (endTime w)],
         items := (items (dynamoDb w))(t := (items (dynamoDb w) t)
                    (bounce_key a \<mapsto> it(''ttl'' \<mapsto> N (toString (endTime w)))))\<rparr>\<rparr>)"
proof -
  let ?d1 = "(dynamoDb w)\<lparr>sent := sent (dynamoDb w) @ [GetItemCommand t (bounce_key a)]\<rparr>"
  from assms(5) have "fault ?d1 (sent ?d1) (updateItemCmd t a (endTime w)) = None"
    by simp
  from dynamo_send_update [OF this] assms(4) show ?thesis
    by (simp add: checkEmailBounce_found [OF assms(1-4)])
qed

lemma checkEmailBounce_frame:
  "snd (checkEmailBounce w a) = w\<lparr>dynamoDb := dynamoDb (snd (checkEmailBounce w a))\<rparr>"
  by (simp add: checkEmailBounce_def split: option.splits prod.splits sum.splits)

lemma checkEmailBounce_config: "config (snd (checkEmailBounce w a)) = config w"
  by (subst checkEmailBounce_frame) simp

lemma checkEmailBounce_client: "client (snd (checkEmailBounce w a)) = client w"
  by (subst checkEmailBounce_frame) simp

lemma checkEmailBounce_logger: "logger (snd (checkEmailBounce w a)) = logger w"
  by (subst checkEmailBounce_frame) simp

lemma checkEmailBounce_validateEmail: "validateEmail (snd (checkEmailBounce w a)) = validateEmail w"
  by (subst checkEmailBounce_frame) simp

lemma sendEmailCommand_frame: "config w1 = config w \<Longrightarrow> sendEmailCommand w1 = sendEmailCommand w"
  by (simp add: sendEmailCommand_def fun_eq_iff)

lemma validated_of_frame: "validateEmail w1 = validateEmail w \<Longrightarrow> validated_of w1 = validated_of w"
  by (simp add: validated_of_def fun_eq_iff)

text \<open>
  The decimal string written to \<^verbatim>\<open>ttl\<close> determines the number: \<open>toString\<close> is
  injective.
\<close>

lemma digit_code: "k < 10 \<Longrightarrow> of_char (''0123456789'' ! k) = (48::nat) + k"
proof -
  assume "k < 10"
  then have "k \<in> {0, 1, 2, 3, 4, 5, 6, 7, 8, 9}" by auto
  then show ?thesis by auto
qed

lemma toString_inj: "inj toString"
proof -
  define val :: "string \<Rightarrow> nat" where "val = foldl (\<lambda>n c. 10 * n + (of_char c - 48)) 0"
  have "val (toString n) = n" for n
  proof (induction n rule: toString.induct)
    case (1 n)
    show ?case
    proof (cases "n < 10")
      case True
      then show ?thesis
        by (subst toString.simps) (simp add: val_def digit_code)
    next
      case False
      with 1 have "val (toString (n div 10)) = n div 10" by simp
      with False show ?thesis
        by (subst toString.simps) (simp add: val_def digit_code)
    qed
  qed
  then show ?thesis by (rule inj_on_inverseI)
qed

subsection \<open>Runs of the bounce check on the concrete service\<close>

lemma toString_example: "toString 1700604800 = ''1700604800''"
  by (simp add: toString.simps)

lemma clean_example: "checkEmailBounce w0 ''clean@example.com'' =
    (Inr False, w0\<lparr>dynamoDb := d0\<lparr>sent := [GetItemCommand ''bounces'' (bounce_key ''clean@example.com'')]\<rparr>\<rparr>)"
  by (simp add: checkEmailBounce_def dynamo_send_def w0_def d0_def bounce_key_def)

lemma mailinator_example: "checkEmailBounce w0 ''x@mailinator.com'' =
    (Inr False, w0\<lparr>dynamoDb := d0\<lparr>sent := [GetItemCommand ''bounces'' (bounce_key ''x@mailinator.com'')]\<rparr>\<rparr>)"
  by (simp add: checkEmailBounce_def dynamo_send_def w0_def d0_def bounce_key_def)

lemma taken_example: "checkEmailBounce w0 ''taken@example.com'' =
    (Inr True,
     w0\<lparr>dynamoDb := d0
        \<lparr>sent := [GetItemCommand ''bounces'' (bounce_key ''taken@example.com''),
                  updateItemCmd ''bounces'' ''taken@example.com'' 1700604800],
         items := (items d0)(''bounces'' := (items d0 ''bounces'')
                    (bounce_key ''taken@example.com'' \<mapsto>
                       (bounced_item ''taken@example.com'')(''ttl'' \<mapsto> N ''1700604800'')))\<rparr>\<rparr>)"
proof -
  have "endTime w0 = 1700604800"
    by (simp add: endTime_def w0_def)
  with checkEmailBounce_refresh [of w0 "''bounces''" "''taken@example.com''" "bounced_item ''taken@example.com''"]
  show ?thesis
    by (simp add: w0_def d0_def bounce_key_def toString_example)
qed

subsection \<open>The bounce registry\<close>

text \<open>
  Claim C6. With \<^verbatim>\<open>BOUNCE_TABLE_NAME\<close> unset (or empty), \<open>checkEmailBounce\<close> returns
  false for every address and leaves the state as it was: nothing is sent to the store.
\<close>

theorem checkEmailBounce_store_unset:
  assumes "env_BOUNCE_TABLE_NAME w = None \<or> env_BOUNCE_TABLE_NAME w = Some []"
  shows "checkEmailBounce w a = (Inr False, w)"
  using assms by (auto simp: checkEmailBounce_def)

theorem checkEmailBounce_store_unset_witness:
  "checkEmailBounce w_unset ''bounced@example.com'' = (Inr False, w_unset)
   \<and> sent (dynamoDb (snd (checkEmailBounce w_unset ''bounced@example.com''))) = []"
  using checkEmailBounce_store_unset [of w_unset "''bounced@example.com''"]
  by (simp add: w_unset_def w0_def d0_def)

text \<open>
  Claim C3. With the table configured, the lookup answered and no record on file for
  the address, \<open>checkEmailBounce\<close> returns false having sent the lookup only; no item
  of the store changes, also through \<open>sendEmail\<close> to that address, where the record is
  still absent afterwards.
\<close>

theorem checkEmailBounce_clean_address:
  assumes "env_BOUNCE_TABLE_NAME w = Some t" and "t \<noteq> []"
    and "fault (dynamoDb w) (sent (dynamoDb w)) (GetItemCommand t (bounce_key a)) = None"
    and "items (dynamoDb w) t (bounce_key a) = None"
  shows "checkEmailBounce w a =
           (Inr False,
            w\<lparr>dynamoDb := (dynamoDb w)\<lparr>sent := sent (dynamoDb w) @ [GetItemCommand t (bounce_key a)]\<rparr>\<rparr>)
         \<and> items (dynamoDb (snd (checkEmailBounce w a))) = items (dynamoDb w)
         \<and> items (dynamoDb (snd (sendEmail w a subject html text'))) = items (dynamoDb w)
         \<and> items (dynamoDb (snd (sendEmail w a subject html text'))) t (bounce_key a) = None"
proof -
  have run: "checkEmailBounce w a =
      (Inr False,
       w\<lparr>dynamoDb := (dynamoDb w)\<lparr>sent := sent (dynamoDb w) @ [GetItemCommand t (bounce_key a)]\<rparr>\<rparr>)"
    by (rule checkEmailBounce_absent [OF assms])
  have "items (dynamoDb (snd (sendEmail w a subject html text'))) = items (dynamoDb w)"
    by (simp add: sendEmail_def run ses_send_def split: sum.splits)
  with run assms(4) show ?thesis by simp
qed

theorem checkEmailBounce_clean_address_witness:
  "checkEmailBounce w0 ''clean@example.com'' =
     (Inr False, w0\<lparr>dynamoDb := d0\<lparr>sent := [GetItemCommand ''bounces'' (bounce_key ''clean@example.com'')]\<rparr>\<rparr>)
   \<and> items (dynamoDb (snd (sendEmail w0 ''clean@example.com'' ''Hello'' ''<p>Hi</p>'' ''Hi'')))
        ''bounces'' (bounce_key ''clean@example.com'') = None"
  using checkEmailBounce_clean_address [of w0 "''bounces''" "''clean@example.com''" "''Hello''" "''<p>Hi</p>''" "''Hi''"]
  by (simp add: w0_def d0_def bounce_key_def)

text \<open>
  Claim C2. With the table configured, the lookup answered and a record on file for
  the address, \<open>checkEmailBounce\<close> sends exactly two commands: the lookup and one update
  that sets \<^verbatim>\<open>ttl\<close> to the current time in seconds plus 604800, whatever the record
  held before. When the store accepts the update, the method returns true and the record
  carries the new \<^verbatim>\<open>ttl\<close>.
\<close>

theorem checkEmailBounce_refreshes_record:
  assumes "env_BOUNCE_TABLE_NAME w = Some t" and "t \<noteq> []"
    and "fault (dynamoDb w) (sent (dynamoDb w)) (GetItemCommand t (bounce_key a)) = None"
    and "items (dynamoDb w) t (bounce_key a) = Some it"
  shows "sent (dynamoDb (snd (checkEmailBounce w a))) =
           sent (dynamoDb w) @
             [GetItemCommand t (bounce_key a),
              UpdateItemCommand t (bounce_key a) ''SET #TL = :tl'' [(''#TL'', ''ttl'')]
                [('':tl'', N (toString (Date_now w div 1000 + 604800)))]]
         \<and> (fault (dynamoDb w) (sent (dynamoDb w) @ [GetItemCommand t (bounce_key a)])
               (updateItemCmd t a (Date_now w div 1000 + 604800)) = None \<longrightarrow>
             fst (checkEmailBounce w a) = Inr True
             \<and> items (dynamoDb (snd (checkEmailBounce w a))) =
                 (items (dynamoDb w))(t := (items (dynamoDb w) t)
                    (bounce_key a \<mapsto> it(''ttl'' \<mapsto> N (toString (Date_now w div 1000 + 604800))))))"
proof -
  let ?d1 = "(dynamoDb w)\<lparr>sent := sent (dynamoDb w) @ [GetItemCommand t (bounce_key a)]\<rparr>"
  let ?u = "updateItemCmd t a (endTime w)"
  have run: "checkEmailBounce w a =
    (case dynamo_send ?d1 ?u of
       (Inl e, d2) \<Rightarrow> (Inl e, w\<lparr>dynamoDb := d2\<rparr>)
     | (Inr _, d2) \<Rightarrow> (Inr True, w\<lparr>dynamoDb := d2\<rparr>))"
    by (rule checkEmailBounce_found [OF assms])
  have "dynamoDb (snd (checkEmailBounce w a)) = snd (dynamo_send ?d1 ?u)"
    by (simp add: run split: prod.splits sum.splits)
  then have log: "sent (dynamoDb (snd (checkEmailBounce w a))) = sent ?d1 @ [?u]"
    by (simp add: dynamo_send_sent)
  have ok: "fst (checkEmailBounce w a) = Inr True \<and>
        items (dynamoDb (snd (checkEmailBounce w a))) =
          (items (dynamoDb w))(t := (items (dynamoDb w) t)
             (bounce_key a \<mapsto> it(''ttl'' \<mapsto> N (toString (endTime w)))))"
    if "fault (dynamoDb w) (sent (dynamoDb w) @ [GetItemCommand t (bounce_key a)]) ?u = None"
  proof -
    from that have "fault ?d1 (sent ?d1) ?u = None" by simp
    from dynamo_send_update [OF this] assms(4) show ?thesis
      by (simp add: run)
  qed
  from log ok show ?thesis
    by (simp add: end_time updateItemCmd_def)
qed

theorem checkEmailBounce_refreshes_record_witness:
  "fst (checkEmailBounce w0 ''bounced@example.com'') = Inr True
   \<and> sent (dynamoDb (snd (checkEmailBounce w0 ''bounced@example.com''))) =
       [GetItemCommand ''bounces'' (bounce_key ''bounced@example.com''),
        UpdateItemCommand ''bounces'' (bounce_key ''bounced@example.com'') ''SET #TL = :tl''
          [(''#TL'', ''ttl'')] [('':tl'', N ''1700604800'')]]
   \<and> items (dynamoDb (snd (checkEmailBounce w0 ''bounced@example.com''))) ''bounces''
        (bounce_key ''bounced@example.com'') =
       Some ((bounced_item ''bounced@example.com'')(''ttl'' \<mapsto> N ''1700604800''))"
  using checkEmailBounce_refreshes_record [of w0 "''bounces''" "''bounced@example.com''" "bounced_item ''bounced@example.com''"]
  by (simp add: w0_def d0_def toString_example bounce_key_def)

text \<open>
  Claim C4. With the table configured, a lookup the store rejects makes
  \<open>checkEmailBounce\<close> fail with the store's error; it does not return false.
\<close>

theorem checkEmailBounce_propagates_store_error:
  assumes "env_BOUNCE_TABLE_NAME w = Some t" and "t \<noteq> []"
    and "fault (dynamoDb w) (sent (dynamoDb w)) (GetItemCommand t (bounce_key a)) = Some e"
  shows "fst (checkEmailBounce w a) = Inl e \<and> fst (checkEmailBounce w a) \<noteq> Inr False"
  by (simp add: checkEmailBounce_lookup_fault [OF assms])

theorem checkEmailBounce_propagates_store_error_witness:
  "fst (checkEmailBounce w_outage ''clean@example.com'') = Inl (ServiceException ''RequestLimitExceeded'')
   \<and> fst (checkEmailBounce w_outage ''clean@example.com'') \<noteq> Inr False"
  using checkEmailBounce_propagates_store_error [of w_outage "''bounces''" "''clean@example.com''" "ServiceException ''RequestLimitExceeded''"]
  by (simp add: w_outage_def w0_def d0_def)

text \<open>
  Claim C9. When the store rejects the lookup, the lookup is the only command
  \<open>checkEmailBounce\<close> has sent: no update follows, and every item is as before.
\<close>

theorem checkEmailBounce_lookup_failure_no_update:
  assumes "env_BOUNCE_TABLE_NAME w = Some t" and "t \<noteq> []"
    and "fault (dynamoDb w) (sent (dynamoDb w)) (GetItemCommand t (bounce_key a)) = Some e"
  shows "sent (dynamoDb (snd (checkEmailBounce w a))) =
           sent (dynamoDb w) @ [GetItemCommand t (bounce_key a)]
         \<and> items (dynamoDb (snd (checkEmailBounce w a))) = items (dynamoDb w)"
  by (simp add: checkEmailBounce_lookup_fault [OF assms])

theorem checkEmailBounce_lookup_failure_no_update_witness:
  "sent (dynamoDb (snd (checkEmailBounce w_outage ''bounced@example.com''))) =
     [GetItemCommand ''bounces'' (bounce_key ''bounced@example.com'')]
   \<and> items (dynamoDb (snd (checkEmailBounce w_outage ''bounced@example.com''))) ''bounces''
        (bounce_key ''bounced@example.com'') = Some (bounced_item ''bounced@example.com'')"
  using checkEmailBounce_lookup_failure_no_update [of w_outage "''bounces''" "''bounced@example.com''" "ServiceException ''RequestLimitExceeded''"]
  by (simp add: w_outage_def w0_def d0_def bounce_key_def)

subsection \<open>The guarded send\<close>

lemma sendEmail_suppressed_run:
  assumes "metaService_fetch w True = Inr meta" and "checkEmailBounce w to = (Inr True, w1)"
  shows "sendEmail w to subject html text' =
           (Inl (Error (bounce_message to)), w1\<lparr>logger := logger w1 @ [LogError (bounce_message to)]\<rparr>)"
  using assms by (simp add: sendEmail_def)

lemma sendEmail_clean:
  assumes "metaService_fetch w True = Inr meta" and "checkEmailBounce w to = (Inr False, w1)"
    and "respond (client w) (sendEmailCommand w meta to subject html text') = Inr MessageId"
  shows "sendEmail w to subject html text' =
           (Inr Undefined,
            w1\<lparr>client := (client w)\<lparr>delivered := delivered (client w) @
                     [sendEmailCommand w meta to subject html text']\<rparr>,
               logger := logger w @
                 [LogInfo (''Message sent: '' @ (case MessageId of None \<Rightarrow> ''undefined'' | Some m \<Rightarrow> m))]\<rparr>)"
proof -
  have "client w1 = client w" "config w1 = config w" "logger w1 = logger w"
    using checkEmailBounce_client [of w to] checkEmailBounce_config [of w to]
      checkEmailBounce_logger [of w to] assms(2) by simp_all
  moreover from this have "sendEmailCommand w1 = sendEmailCommand w"
    by (intro sendEmailCommand_frame)
  ultimately show ?thesis
    using assms by (simp add: sendEmail_def ses_send_def)
qed

text \<open>
  Claim C5. When the metadata is fetched and the bounce check answers true for the
  recipient, \<open>sendEmail\<close> fails with the error
  \<^verbatim>\<open>Email address <to> is registered on bounce table.\<close>; nothing is handed to the
  transport, and the outcome is the same for every subject and body: the template plays
  no part in it.
\<close>

theorem sendEmail_suppressed_recipient:
  assumes "metaService_fetch w True = Inr meta" and "checkEmailBounce w to = (Inr True, w1)"
  shows "fst (sendEmail w to subject html text') =
           Inl (Error (''Email address '' @ to @ '' is registered on bounce table.''))
         \<and> delivered (client (snd (sendEmail w to subject html text'))) = delivered (client w)
         \<and> sendEmail w to subject html text' = sendEmail w to subject2 html2 text2"
proof -
  have "client w1 = client w"
    using checkEmailBounce_client [of w to] assms(2) by simp
  then show ?thesis
    by (simp add: sendEmail_suppressed_run [OF assms] bounce_message_def)
qed

text \<open>The same on the concrete service, for the bounced address.\<close>

theorem sendEmail_suppressed_recipient_witness:
  "fst (sendEmail w0 ''bounced@example.com'' ''Hello'' ''<p>Hi</p>'' ''Hi'') =
     Inl (Error ''Email address bounced@example.com is registered on bounce table.'')
   \<and> delivered (client (snd (sendEmail w0 ''bounced@example.com'' ''Hello'' ''<p>Hi</p>'' ''Hi''))) = []"
proof -
  have m: "metaService_fetch w0 True = Inr meta0"
    by (simp add: w0_def)
  have "fst (checkEmailBounce w0 ''bounced@example.com'') = Inr True"
    by (simp add: checkEmailBounce_def dynamo_send_def updateItemCmd_def apply_update_def
        w0_def d0_def bounce_key_def)
  then have c: "checkEmailBounce w0 ''bounced@example.com'' =
      (Inr True, snd (checkEmailBounce w0 ''bounced@example.com''))"
    by (simp add: prod_eq_iff)
  have "delivered (client w0) = []"
    by (simp add: w0_def)
  with sendEmail_suppressed_recipient [OF m c, of "''Hello''" "''<p>Hi</p>''" "''Hi''" "''Hello''" "''<p>Hi</p>''" "''Hi''"]
  show ?thesis by simp
qed

text \<open>
  Claim C8 as stated, that \<open>sendEmail\<close> returns the transport's message identifier,
  fails on the concrete service: the transport answers with an identifier and the
  method resolves to \<^verbatim>\<open>undefined\<close>.
\<close>

theorem sendEmail_returns_no_message_id:
  "respond (client w0) (sendEmailCommand w0 meta0 ''clean@example.com'' ''Hello'' ''<p>Hi</p>'' ''Hi'') =
     Inr (Some ''0100018c-msg'')
   \<and> fst (checkEmailBounce w0 ''clean@example.com'') = Inr False
   \<and> fst (sendEmail w0 ''clean@example.com'' ''Hello'' ''<p>Hi</p>'' ''Hi'') = Inr Undefined
   \<and> fst (sendEmail w0 ''clean@example.com'' ''Hello'' ''<p>Hi</p>'' ''Hi'') \<noteq> Inr (Str ''0100018c-msg'')"
proof -
  have m: "metaService_fetch w0 True = Inr meta0"
    by (simp add: w0_def)
  have r: "respond (client w0) (sendEmailCommand w0 meta0 ''clean@example.com'' ''Hello'' ''<p>Hi</p>'' ''Hi'') =
      Inr (Some ''0100018c-msg'')"
    by (simp add: w0_def)
  from sendEmail_clean [OF m clean_example r] r clean_example show ?thesis by simp
qed

text \<open>
  Claim C8, as amended. For a recipient the bounce check clears, with the metadata
  fetched and the transport answering, \<open>sendEmail\<close> hands the message to the transport
  once, writes \<^verbatim>\<open>Message sent: <MessageId>\<close> to the info log and resolves to
  \<^verbatim>\<open>undefined\<close>: the message identifier is logged, not returned.
\<close>

theorem sendEmail_clean_logs_message_id:
  assumes "metaService_fetch w True = Inr meta" and "checkEmailBounce w to = (Inr False, w1)"
    and "respond (client w) (sendEmailCommand w meta to subject html text') = Inr MessageId"
  shows "fst (sendEmail w to subject html text') = Inr Undefined
         \<and> logger (snd (sendEmail w to subject html text')) =
             logger w @ [LogInfo (''Message sent: '' @ (case MessageId of None \<Rightarrow> ''undefined'' | Some m \<Rightarrow> m))]
         \<and> delivered (client (snd (sendEmail w to subject html text'))) =
             delivered (client w) @ [sendEmailCommand w meta to subject html text']"
  by (simp add: sendEmail_clean [OF assms])

text \<open>The same on the concrete service, for a clean address.\<close>

theorem sendEmail_clean_logs_message_id_witness:
  "fst (sendEmail w0 ''clean@example.com'' ''Hello'' ''<p>Hi</p>'' ''Hi'') = Inr Undefined
   \<and> logger (snd (sendEmail w0 ''clean@example.com'' ''Hello'' ''<p>Hi</p>'' ''Hi'')) =
       [LogInfo ''Message sent: 0100018c-msg'']"
proof -
  have m: "metaService_fetch w0 True = Inr meta0"
    by (simp add: w0_def)
  have r: "respond (client w0) (sendEmailCommand w0 meta0 ''clean@example.com'' ''Hello'' ''<p>Hi</p>'' ''Hi'') =
      Inr (Some ''0100018c-msg'')"
    by (simp add: w0_def)
  have "logger w0 = []"
    by (simp add: w0_def)
  with sendEmail_clean_logs_message_id [OF m clean_example r] show ?thesis by simp
qed

subsection \<open>The eligibility verdict\<close>

lemma decide_spec:
  "formatResult_of validated = Some fr \<Longrightarrow>
   decide exist cb validated =
     \<lparr>available = spec_available exist cb fr, verdict_reason = spec_reason exist cb fr\<rparr>"
  by (auto simp: decide_def formatResult_of_def spec_available_def spec_reason_def
      split: if_splits)

text \<open>
  An invalid answer whose reason is none of \<^verbatim>\<open>regex\<close>, \<^verbatim>\<open>disposable\<close>, \<^verbatim>\<open>mx\<close>,
  \<^verbatim>\<open>smtp\<close> is outside the five format results; the conditional then ends in its last
  branch. With \<^verbatim>\<open>validateTypo\<close> off the validator has no such answer.
\<close>

lemma decide_outside_contract:
  "decide 0 False \<lparr>valid = False, reason = Some ''typo''\<rparr> = \<lparr>available = False, verdict_reason = None\<rparr>
   \<and> decide 0 False \<lparr>valid = False, reason = None\<rparr> = \<lparr>available = False, verdict_reason = None\<rparr>
   \<and> formatResult_of \<lparr>valid = False, reason = Some ''typo''\<rparr> = None
   \<and> formatResult_of \<lparr>valid = False, reason = None\<rparr> = None"
  by (simp add: decide_def formatResult_of_def)

lemma decide_reason_iff:
  "formatResult_of validated \<noteq> None \<Longrightarrow>
   (verdict_reason (decide exist cb validated) = None) = available (decide exist cb validated)"
  by (auto simp: decide_def formatResult_of_def split: if_splits)

lemma validateEmailForAccount_run:
  assumes "metaService_fetch w False = Inr meta"
    and "userProfilesRepository_countBy w True a = Inr exist"
    and "checkEmailBounce w a = (Inr cb, w1)"
    and "validated_of w meta a = Inr validated"
  shows "validateEmailForAccount w a = (Inr (decide exist cb validated), w1)"
proof -
  have "validateEmail w1 = validateEmail w"
    using checkEmailBounce_validateEmail [of w a] assms(3) by simp
  then have "validated_of w1 = validated_of w"
    by (intro validated_of_frame)
  with assms show ?thesis
    by (simp add: validateEmailForAccount_def)
qed

lemma validateEmailForAccount_returns:
  assumes "validateEmailForAccount w a = (Inr v, w')"
  obtains meta exist cb validated where
    "metaService_fetch w False = Inr meta"
    "userProfilesRepository_countBy w True a = Inr exist"
    "checkEmailBounce w a = (Inr cb, w')"
    "validated_of w meta a = Inr validated"
    "v = decide exist cb validated"
proof -
  from assms obtain meta where m: "metaService_fetch w False = Inr meta"
    by (auto simp: validateEmailForAccount_def split: sum.splits)
  with assms obtain exist where e: "userProfilesRepository_countBy w True a = Inr exist"
    by (auto simp: validateEmailForAccount_def split: sum.splits)
  obtain r w1 where c: "checkEmailBounce w a = (r, w1)"
    by (cases "checkEmailBounce w a")
  with assms m e obtain cb where cb: "r = Inr cb"
    by (auto simp: validateEmailForAccount_def split: sum.splits)
  have "validateEmail w1 = validateEmail w"
    using checkEmailBounce_validateEmail [of w a] c by simp
  then have f: "validated_of w1 = validated_of w"
    by (intro validated_of_frame)
  from assms m e c cb f obtain validated where
    "validated_of w meta a = Inr validated" "v = decide exist cb validated" "w' = w1"
    by (auto simp: validateEmailForAccount_def split: sum.splits)
  with m e c cb that show thesis by simp
qed

text \<open>
  Claim C1. With the three values gathered (the count of verified accounts, the answer
  of the bounce check, the validator's answer read as one of the five format results),
  \<open>validateEmailForAccount\<close> returns the verdict of the decision rule: available exactly
  when the count is zero, the format result is valid and the address is not suppressed,
  and otherwise the first matching reason of the precedence list.
\<close>

theorem validateEmailForAccount_decision_rule:
  assumes "metaService_fetch w False = Inr meta"
    and "userProfilesRepository_countBy w True a = Inr alreadyVerifiedCount"
    and "checkEmailBounce w a = (Inr isSuppressed, w1)"
    and "validated_of w meta a = Inr validated"
    and "formatResult_of validated = Some formatResult"
  shows "validateEmailForAccount w a =
    (Inr \<lparr>available = (alreadyVerifiedCount = 0 \<and> formatResult = fr_valid \<and> \<not> isSuppressed),
          verdict_reason = spec_reason alreadyVerifiedCount isSuppressed formatResult\<rparr>, w1)"
  using validateEmailForAccount_run [OF assms(1-4)] decide_spec [OF assms(5)]
  by (simp add: spec_available_def)

text \<open>The same on the concrete service: a disposable address nobody has verified.\<close>

theorem validateEmailForAccount_decision_rule_witness:
  "fst (validateEmailForAccount w0 ''x@mailinator.com'') =
     Inr \<lparr>available = False, verdict_reason = Some disposable\<rparr>"
proof -
  have m: "metaService_fetch w0 False = Inr meta0"
    and e: "userProfilesRepository_countBy w0 True ''x@mailinator.com'' = Inr 0"
    and v: "validated_of w0 meta0 ''x@mailinator.com'' = Inr \<lparr>valid = False, reason = Some ''disposable''\<rparr>"
    by (simp_all add: w0_def meta0_def validated_of_def validator_options_def)
  have f: "formatResult_of \<lparr>valid = False, reason = Some ''disposable''\<rparr> = Some fr_disposable"
    by (simp add: formatResult_of_def)
  from validateEmailForAccount_decision_rule [OF m e mailinator_example v f] show ?thesis
    by (simp add: spec_reason_def spec_available_def)
qed

text \<open>
  Claim C7. For a validator that answers within its contract (valid, or invalid with
  one of the reasons \<^verbatim>\<open>regex\<close>, \<^verbatim>\<open>disposable\<close>, \<^verbatim>\<open>mx\<close>, \<^verbatim>\<open>smtp\<close>), every
  verdict \<open>validateEmailForAccount\<close> returns has no reason exactly when it is available,
  and an unavailable verdict carries one of the five reasons.
\<close>

theorem validateEmailForAccount_reason_none_iff_available:
  assumes "validateEmailForAccount w a = (Inr v, w')"
    and "\<forall>out. validateEmail w (validator_options a) = Inr out \<longrightarrow> formatResult_of out \<noteq> None"
  shows "(verdict_reason v = None \<longleftrightarrow> available v)
         \<and> (\<not> available v \<longrightarrow> verdict_reason v \<in> Some ` {used, format, disposable, mx, smtp})"
proof -
  from assms(1) obtain meta exist cb validated where
    val: "validated_of w meta a = Inr validated" and v: "v = decide exist cb validated"
    by (rule validateEmailForAccount_returns)
  from val assms(2) have "formatResult_of validated \<noteq> None"
    by (auto simp: validated_of_def formatResult_of_def split: if_splits)
  then have iff: "(verdict_reason v = None) = available v"
    unfolding v by (rule decide_reason_iff)
  have "verdict_reason v \<in> Some ` {used, format, disposable, mx, smtp}" if "\<not> available v"
  proof -
    from that iff obtain r where "verdict_reason v = Some r" by auto
    then show ?thesis by (cases r) simp_all
  qed
  with iff show ?thesis by simp
qed

text \<open>The same on the concrete service.\<close>

theorem validateEmailForAccount_reason_none_iff_available_witness:
  "validateEmailForAccount w0 ''x@mailinator.com'' =
     (Inr \<lparr>available = False, verdict_reason = Some disposable\<rparr>,
      w0\<lparr>dynamoDb := d0\<lparr>sent := [GetItemCommand ''bounces'' (bounce_key ''x@mailinator.com'')]\<rparr>\<rparr>)
   \<and> Some disposable \<in> Some ` {used, format, disposable, mx, smtp}"
proof -
  have m: "metaService_fetch w0 False = Inr meta0"
    and e: "userProfilesRepository_countBy w0 True ''x@mailinator.com'' = Inr 0"
    and v: "validated_of w0 meta0 ''x@mailinator.com'' = Inr \<lparr>valid = False, reason = Some ''disposable''\<rparr>"
    by (simp_all add: w0_def meta0_def validated_of_def validator_options_def)
  have run: "validateEmailForAccount w0 ''x@mailinator.com'' =
     (Inr \<lparr>available = False, verdict_reason = Some disposable\<rparr>,
      w0\<lparr>dynamoDb := d0\<lparr>sent := [GetItemCommand ''bounces'' (bounce_key ''x@mailinator.com'')]\<rparr>\<rparr>)"
    using validateEmailForAccount_run [OF m e mailinator_example v]
    by (simp add: decide_def)
  have c: "\<forall>out. validateEmail w0 (validator_options ''x@mailinator.com'') = Inr out \<longrightarrow>
             formatResult_of out \<noteq> None"
    by (simp add: w0_def validator_options_def formatResult_of_def)
  from validateEmailForAccount_reason_none_iff_available [OF run c] run show ?thesis by simp
qed

text \<open>
  Claim C10. Once the metadata and the account count are fetched,
  \<open>validateEmailForAccount\<close> runs the bounce check whatever the count and whatever the
  validator will say: its final state is the state the bounce check leaves. For an
  address with a record in a store that accepts both commands, the record's \<^verbatim>\<open>ttl\<close>
  is therefore set to the current time in seconds plus 604800.
\<close>

theorem validateEmailForAccount_refreshes_suppression:
  assumes "metaService_fetch w False = Inr meta"
    and "userProfilesRepository_countBy w True a = Inr exist"
    and "env_BOUNCE_TABLE_NAME w = Some t" and "t \<noteq> []"
    and "fault (dynamoDb w) (sent (dynamoDb w)) (GetItemCommand t (bounce_key a)) = None"
    and "items (dynamoDb w) t (bounce_key a) = Some it"
    and "fault (dynamoDb w) (sent (dynamoDb w) @ [GetItemCommand t (bounce_key a)])
           (updateItemCmd t a (Date_now w div 1000 + 604800)) = None"
  shows "snd (validateEmailForAccount w a) = snd (checkEmailBounce w a)
         \<and> sent (dynamoDb (snd (validateEmailForAccount w a))) =
             sent (dynamoDb w) @
               [GetItemCommand t (bounce_key a),
                updateItemCmd t a (Date_now w div 1000 + 604800)]
         \<and> items (dynamoDb (snd (validateEmailForAccount w a))) t (bounce_key a) =
             Some (it(''ttl'' \<mapsto> N (toString (Date_now w div 1000 + 604800))))"
proof -
  from assms(7) have "fault (dynamoDb w) (sent (dynamoDb w) @ [GetItemCommand t (bounce_key a)])
           (updateItemCmd t a (endTime w)) = None"
    by (simp add: end_time)
  note run = checkEmailBounce_refresh [OF assms(3-6) this]
  have "snd (validateEmailForAccount w a) = snd (checkEmailBounce w a)"
    using assms(1,2) by (simp add: validateEmailForAccount_def run split: sum.splits)
  then show ?thesis
    by (simp add: run end_time)
qed

text \<open>The same on the concrete service: the address is bounced and already verified; the
  verdict is \<open>used\<close> and the record is refreshed all the same.\<close>

theorem validateEmailForAccount_refreshes_suppression_witness:
  "fst (validateEmailForAccount w0 ''taken@example.com'') =
     Inr \<lparr>available = False, verdict_reason = Some used\<rparr>
   \<and> items (dynamoDb (snd (validateEmailForAccount w0 ''taken@example.com''))) ''bounces''
        (bounce_key ''taken@example.com'') =
       Some ((bounced_item ''taken@example.com'')(''ttl'' \<mapsto> N ''1700604800''))"
proof -
  have m: "metaService_fetch w0 False = Inr meta0"
    and e: "userProfilesRepository_countBy w0 True ''taken@example.com'' = Inr 1"
    and v: "validated_of w0 meta0 ''taken@example.com'' = Inr \<lparr>valid = True, reason = None\<rparr>"
    by (simp_all add: w0_def meta0_def validated_of_def validator_options_def)
  have verdict: "fst (validateEmailForAccount w0 ''taken@example.com'') =
      Inr \<lparr>available = False, verdict_reason = Some used\<rparr>"
    using validateEmailForAccount_run [OF m e taken_example v] by (simp add: decide_def)
  have h: "env_BOUNCE_TABLE_NAME w0 = Some ''bounces''" "''bounces'' \<noteq> []"
    "fault (dynamoDb w0) (sent (dynamoDb w0)) (GetItemCommand ''bounces'' (bounce_key ''taken@example.com'')) = None"
    "items (dynamoDb w0) ''bounces'' (bounce_key ''taken@example.com'') = Some (bounced_item ''taken@example.com'')"
    "fault (dynamoDb w0) (sent (dynamoDb w0) @ [GetItemCommand ''bounces'' (bounce_key ''taken@example.com'')])
       (updateItemCmd ''bounces'' ''taken@example.com'' (Date_now w0 div 1000 + 604800)) = None"
    by (simp_all add: w0_def d0_def bounce_key_def)
  have "Date_now w0 div 1000 + 604800 = 1700604800"
    by (simp add: w0_def)
  with validateEmailForAccount_refreshes_suppression [OF m e h, THEN conjunct2, THEN conjunct2] verdict show ?thesis
    by (simp add: toString_example)
qed

end
